theory Spec2Isabelle
  imports Complex_Main
begin

section \<open>The validator economics chart: the weekly simulation\<close>

text \<open>
  This theory embeds the computation of \<^verbatim>\<open>data\<close> in
  \<^verbatim>\<open>docs/components/ValidatorEconomics.tsx\<close>: the \<^verbatim>\<open>useMemo\<close> body that turns the
  chart's controls into twelve weekly projections.

  The computation is embedded twice. In the first model JavaScript numbers are real
  numbers, the numeric domain the specification gives for the simulator (finite numeric
  inputs, no rounding); \<^verbatim>\<open>Math.sin\<close> and \<^verbatim>\<open>Math.cos\<close> are the real sine and cosine,
  whose arguments are radians. In the second model the two numeric cells that the user
  types into hold JavaScript numbers with their special values: a finite value, an
  infinity or NaN, with overflow to an infinity beyond the largest double. Rounding,
  subnormal numbers and the sign of zero are in neither model.
\<close>

subsection \<open>Provider tables\<close>

datatype Provider = aws_ec2 | gcp_compute

datatype BlobProvider = s3 | gcs

record ComputeCost =
  base :: real

record BlobCost =
  storage_per_gb :: real
  egress_per_gb :: real

fun COMPUTE_COSTS :: "Provider \<Rightarrow> ComputeCost" where
  "COMPUTE_COSTS aws_ec2 = \<lparr>base = 80\<rparr>"
| "COMPUTE_COSTS gcp_compute = \<lparr>base = 70\<rparr>"

fun BLOB_COSTS :: "BlobProvider \<Rightarrow> BlobCost" where
  "BLOB_COSTS s3 = \<lparr>storage_per_gb = 0.023, egress_per_gb = 0.09\<rparr>"
| "BLOB_COSTS gcs = \<lparr>storage_per_gb = 0.020, egress_per_gb = 0.12\<rparr>"

subsection \<open>Component state and constants\<close>

text \<open>The six \<^verbatim>\<open>useState\<close> cells of \<^verbatim>\<open>ValidatorEconomicsChart\<close>.\<close>

record ChartState =
  provider :: Provider
  blob :: BlobProvider
  audioPrice :: real
  totalStake :: real
  userStake :: real
  darkMode :: bool

text \<open>The initial values handed to \<^verbatim>\<open>useState\<close>.\<close>

definition initialState :: ChartState where
  "initialState =
     \<lparr>provider = aws_ec2, blob = s3, audioPrice = 0.27, totalStake = 280000000,
      userStake = 2000000, darkMode = True\<rparr>"

definition storageGB :: real where
  "storageGB = 200"

definition egressGB :: real where
  "egressGB = 400"

definition annualRewardRate :: real where
  "annualRewardRate = 0.07"

definition weeks :: nat where
  "weeks = 12"

subsection \<open>The projection and the loop\<close>

record WeekProjection =
  week :: nat
  weeklyEarningsUSD :: real
  weeklyInfraCostUSD :: real
  netUSD :: real
  cumulativeNetUSD :: real

text \<open>
  \<^verbatim>\<open>Array.from({ length: n }, (_, i) => ...)\<close> calls its callback for
  \<open>i = 0, 1, ..., n - 1\<close> in this order and collects the results. The callback of
  \<^verbatim>\<open>data\<close> assigns to two variables of the enclosing scope, so the callback of the model takes
  their values and returns the new ones with its result; \<open>array_from n f i s\<close> runs \<open>n\<close>
  calls from index \<open>i\<close> on in state \<open>s\<close>.
\<close>

fun array_from :: "nat \<Rightarrow> (nat \<Rightarrow> 's \<Rightarrow> 'a \<times> 's) \<Rightarrow> nat \<Rightarrow> 's \<Rightarrow> 'a list" where
  "array_from 0 f i s = []"
| "array_from (Suc n) f i s = (case f i s of (x, s') \<Rightarrow> x # array_from n f (Suc i) s')"

text \<open>
  The arrow function given to \<^verbatim>\<open>Array.from\<close> (lines 64 to 95). It reads \<^verbatim>\<open>audioPrice\<close> and
  \<^verbatim>\<open>userStake\<close> from the component state and the four constants bound before the loop; the
  pair is \<^verbatim>\<open>(cumulativeEarnings, cumulativeCosts)\<close> before and after the call.
\<close>

definition weekCallback ::
  "ChartState \<Rightarrow> BlobCost \<Rightarrow> ComputeCost \<Rightarrow> real \<Rightarrow> real \<Rightarrow> nat \<Rightarrow> real \<times> real
     \<Rightarrow> WeekProjection \<times> (real \<times> real)" where
  "weekCallback st blobCost computeCost weeklyRewardRate monthlyToWeekly i acc =
     (case acc of (cumulativeEarnings, cumulativeCosts) \<Rightarrow>
      let wk = i + 1;
          priceDrift = audioPrice st * (1 + 0.1 * sin (real wk / 3));
          rewardVariance = weeklyRewardRate * (1 + 0.05 * cos (real wk / 2));
          earnings = userStake st * rewardVariance * priceDrift;
          cumulativeEarnings = cumulativeEarnings + earnings;
          costGrowth = 1 + real wk * 0.015;
          infraCost =
            (base computeCost * monthlyToWeekly
              + storage_per_gb blobCost * storageGB
              + egress_per_gb blobCost * egressGB) * costGrowth;
          cumulativeCosts = cumulativeCosts + infraCost;
          net = earnings - infraCost;
          cumulativeNet = cumulativeEarnings - cumulativeCosts
      in (\<lparr>week = wk,
           weeklyEarningsUSD = earnings,
           weeklyInfraCostUSD = infraCost,
           netUSD = net,
           cumulativeNetUSD = cumulativeNet\<rparr>,
          (cumulativeEarnings, cumulativeCosts)))"

text \<open>
  The body of the \<^verbatim>\<open>useMemo\<close> callback after its two table lookups (lines 58 to 95), for
  any cost records: the specification's \<^verbatim>\<open>simulate\<close>.
\<close>

definition simulate :: "ComputeCost \<Rightarrow> BlobCost \<Rightarrow> ChartState \<Rightarrow> WeekProjection list" where
  "simulate computeCost blobCost st =
     (let weeklyRewardRate = annualRewardRate / 52;
          monthlyToWeekly = 1 / 4.345;
          cumulativeEarnings = 0;
          cumulativeCosts = 0
      in array_from weeks
           (weekCallback st blobCost computeCost weeklyRewardRate monthlyToWeekly)
           0 (cumulativeEarnings, cumulativeCosts))"

text \<open>The value of \<^verbatim>\<open>data\<close> (lines 55 to 96): the lookups, then the body.\<close>

definition data :: "ChartState \<Rightarrow> WeekProjection list" where
  "data st =
     (let blobCost = BLOB_COSTS (blob st);
          computeCost = COMPUTE_COSTS (provider st)
      in simulate computeCost blobCost st)"

subsection \<open>Closed forms of the per-week values\<close>

text \<open>
  What the callback computes at index \<open>i\<close> (week \<open>i + 1\<close>) for the weekly earnings
  (lines 68 to 74) and for the weekly infrastructure cost (lines 78 to 82), as functions of
  the index. They are used to describe the elements of the result; the model of the
  program above does not depend on them.
\<close>

definition earningsAt :: "ChartState \<Rightarrow> real \<Rightarrow> nat \<Rightarrow> real" where
  "earningsAt st weeklyRewardRate i =
     userStake st * (weeklyRewardRate * (1 + 0.05 * cos (real (i + 1) / 2)))
       * (audioPrice st * (1 + 0.1 * sin (real (i + 1) / 3)))"

definition infraCostAt :: "BlobCost \<Rightarrow> ComputeCost \<Rightarrow> real \<Rightarrow> nat \<Rightarrow> real" where
  "infraCostAt blobCost computeCost monthlyToWeekly i =
     (base computeCost * monthlyToWeekly + storage_per_gb blobCost * storageGB
        + egress_per_gb blobCost * egressGB) * (1 + real (i + 1) * 0.015)"

subsection \<open>JavaScript numbers with their special values\<close>

text \<open>
  The two number inputs write \<^verbatim>\<open>parseFloat(e.target.value)\<close> into \<^verbatim>\<open>audioPrice\<close> and
  \<^verbatim>\<open>userStake\<close> (lines 151 and 161), so these cells hold any double, NaN included (the
  value of \<^verbatim>\<open>parseFloat("")\<close>). A JavaScript number is a finite value, one of the two
  infinities, or NaN.
\<close>

datatype jsnum = Fin real | PosInf | NegInf | NaN

text \<open>The largest finite double, \<^verbatim>\<open>Number.MAX_VALUE\<close>.\<close>

definition maxDouble :: real where
  "maxDouble = (2 ^ 53 - 1) * 2 ^ 971"

text \<open>
  The result of an operation whose exact value is \<open>x\<close>: beyond the largest double it is
  an infinity.
\<close>

definition fin :: "real \<Rightarrow> jsnum" where
  "fin x = (if maxDouble < x then PosInf else if x < - maxDouble then NegInf else Fin x)"

text \<open>
  Negation, addition, subtraction and multiplication of doubles on these values: NaN is
  absorbing, infinities of opposite sign add up to NaN, and zero times an infinity is NaN.
\<close>

fun jneg :: "jsnum \<Rightarrow> jsnum" where
  "jneg (Fin x) = Fin (- x)"
| "jneg PosInf = NegInf"
| "jneg NegInf = PosInf"
| "jneg NaN = NaN"

fun jadd :: "jsnum \<Rightarrow> jsnum \<Rightarrow> jsnum" where
  "jadd NaN b = NaN"
| "jadd a NaN = NaN"
| "jadd (Fin x) (Fin y) = fin (x + y)"
| "jadd (Fin x) b = b"
| "jadd a (Fin y) = a"
| "jadd PosInf PosInf = PosInf"
| "jadd NegInf NegInf = NegInf"
| "jadd PosInf NegInf = NaN"
| "jadd NegInf PosInf = NaN"

definition jsub :: "jsnum \<Rightarrow> jsnum \<Rightarrow> jsnum" where
  "jsub a b = jadd a (jneg b)"

text \<open>An infinity \<open>a\<close> times the finite value \<open>x\<close>.\<close>

definition inf_times :: "jsnum \<Rightarrow> real \<Rightarrow> jsnum" where
  "inf_times a x = (if x = 0 then NaN else if 0 < x then a else jneg a)"

fun jmul :: "jsnum \<Rightarrow> jsnum \<Rightarrow> jsnum" where
  "jmul NaN b = NaN"
| "jmul a NaN = NaN"
| "jmul (Fin x) (Fin y) = fin (x * y)"
| "jmul (Fin x) b = inf_times b x"
| "jmul a (Fin y) = inf_times a y"
| "jmul PosInf b = b"
| "jmul NegInf b = jneg b"

text \<open>A value that a double can hold: a finite value within range, an infinity or NaN.\<close>

definition representable :: "jsnum \<Rightarrow> bool" where
  "representable a = (case a of Fin x \<Rightarrow> \<bar>x\<bar> \<le> maxDouble | _ \<Rightarrow> True)"

text \<open>The component state and the projection with JavaScript numbers in their cells.\<close>

record JsChartState =
  provider_js :: Provider
  blob_js :: BlobProvider
  audioPrice_js :: jsnum
  totalStake_js :: jsnum
  userStake_js :: jsnum
  darkMode_js :: bool

definition initialState_js :: JsChartState where
  "initialState_js =
     \<lparr>provider_js = aws_ec2, blob_js = s3, audioPrice_js = Fin 0.27,
      totalStake_js = Fin 280000000, userStake_js = Fin 2000000, darkMode_js = True\<rparr>"

record JsWeekProjection =
  week_js :: nat
  weeklyEarningsUSD_js :: jsnum
  weeklyInfraCostUSD_js :: jsnum
  netUSD_js :: jsnum
  cumulativeNetUSD_js :: jsnum

text \<open>
  The arrow function of lines 64 to 95 again, operation by operation, on JavaScript numbers.
  The subexpressions built from the week and from literals only
  (\<^verbatim>\<open>1 + 0.1 * Math.sin(week / 3)\<close>, \<^verbatim>\<open>1 + 0.05 * Math.cos(week / 2)\<close>,
  \<^verbatim>\<open>1 + week * 0.015\<close>) are finite and between 0.9 and 1.2 for every week, so they are
  written as reals under \<open>Fin\<close>; every operation with a cell, a table entry or a running
  total as operand is an operation of \<open>jsnum\<close>.
\<close>

definition weekCallback_js ::
  "JsChartState \<Rightarrow> BlobCost \<Rightarrow> ComputeCost \<Rightarrow> jsnum \<Rightarrow> jsnum \<Rightarrow> nat \<Rightarrow> jsnum \<times> jsnum
     \<Rightarrow> JsWeekProjection \<times> (jsnum \<times> jsnum)" where
  "weekCallback_js st blobCost computeCost weeklyRewardRate monthlyToWeekly i acc =
     (case acc of (cumulativeEarnings, cumulativeCosts) \<Rightarrow>
      let wk = i + 1;
          priceDrift = jmul (audioPrice_js st) (Fin (1 + 0.1 * sin (real wk / 3)));
          rewardVariance = jmul weeklyRewardRate (Fin (1 + 0.05 * cos (real wk / 2)));
          earnings = jmul (jmul (userStake_js st) rewardVariance) priceDrift;
          cumulativeEarnings = jadd cumulativeEarnings earnings;
          costGrowth = Fin (1 + real wk * 0.015);
          infraCost =
            jmul (jadd (jadd (jmul (Fin (base computeCost)) monthlyToWeekly)
                             (jmul (Fin (storage_per_gb blobCost)) (Fin storageGB)))
                       (jmul (Fin (egress_per_gb blobCost)) (Fin egressGB)))
                 costGrowth;
          cumulativeCosts = jadd cumulativeCosts infraCost;
          net = jsub earnings infraCost;
          cumulativeNet = jsub cumulativeEarnings cumulativeCosts
      in (\<lparr>week_js = wk,
           weeklyEarningsUSD_js = earnings,
           weeklyInfraCostUSD_js = infraCost,
           netUSD_js = net,
           cumulativeNetUSD_js = cumulativeNet\<rparr>,
          (cumulativeEarnings, cumulativeCosts)))"

definition simulate_js :: "ComputeCost \<Rightarrow> BlobCost \<Rightarrow> JsChartState \<Rightarrow> JsWeekProjection list" where
  "simulate_js computeCost blobCost st =
     (let weeklyRewardRate = Fin (annualRewardRate / 52);
          monthlyToWeekly = Fin (1 / 4.345);
          cumulativeEarnings = Fin 0;
          cumulativeCosts = Fin 0
      in array_from weeks
           (weekCallback_js st blobCost computeCost weeklyRewardRate monthlyToWeekly)
           0 (cumulativeEarnings, cumulativeCosts))"

definition data_js :: "JsChartState \<Rightarrow> JsWeekProjection list" where
  "data_js st =
     (let blobCost = BLOB_COSTS (blob_js st);
          computeCost = COMPUTE_COSTS (provider_js st)
      in simulate_js computeCost blobCost st)"

text \<open>
  Two states the controls can reach from the initial one: the stake set to 0, and the stake
  set to 0 with the price set to \<^verbatim>\<open>1.7e308\<close>, a positive finite double.
\<close>

definition zeroStakeState :: JsChartState where
  "zeroStakeState = initialState_js\<lparr>userStake_js := Fin 0\<rparr>"

definition overflowState :: JsChartState where
  "overflowState = initialState_js\<lparr>audioPrice_js := Fin (17 * 10 ^ 307), userStake_js := Fin 0\<rparr>"

subsection \<open>One invocation as a state transformer\<close>

text \<open>
  To state what an invocation of the \<^verbatim>\<open>useMemo\<close> callback reads and writes, the callback is
  also modelled on a store: the cells of the component, the two variables
  \<^verbatim>\<open>cumulativeEarnings\<close> and \<^verbatim>\<open>cumulativeCosts\<close> that the callback declares and its arrow
  function assigns to, and, as the extension of the record, any other state. The slots of
  the two variables keep whatever an earlier invocation left in them until the declarations
  \<^verbatim>\<open>let cumulativeEarnings = 0; let cumulativeCosts = 0;\<close> (lines 61 and 62) run.
\<close>

record World =
  cells :: ChartState
  cumulativeEarnings :: real
  cumulativeCosts :: real

text \<open>\<^verbatim>\<open>Array.from\<close> as above, returning the final state as well.\<close>

fun array_from_st :: "nat \<Rightarrow> (nat \<Rightarrow> 's \<Rightarrow> 'a \<times> 's) \<Rightarrow> nat \<Rightarrow> 's \<Rightarrow> 'a list \<times> 's" where
  "array_from_st 0 f i s = ([], s)"
| "array_from_st (Suc n) f i s =
     (case f i s of (x, s') \<Rightarrow>
        (case array_from_st n f (Suc i) s' of (xs, s'') \<Rightarrow> (x # xs, s'')))"

text \<open>
  The arrow function on the store: it reads the cells and the two variables, and assigns
  to the two variables.
\<close>

definition weekCallback_in ::
  "BlobCost \<Rightarrow> ComputeCost \<Rightarrow> real \<Rightarrow> real \<Rightarrow> nat \<Rightarrow> 'a World_scheme
     \<Rightarrow> WeekProjection \<times> 'a World_scheme" where
  "weekCallback_in blobCost computeCost weeklyRewardRate monthlyToWeekly i w =
     (case weekCallback (cells w) blobCost computeCost weeklyRewardRate monthlyToWeekly i
             (cumulativeEarnings w, cumulativeCosts w) of
        (projection, (earnings, costs)) \<Rightarrow>
          (projection, w\<lparr>cumulativeEarnings := earnings, cumulativeCosts := costs\<rparr>))"

text \<open>The callback given to \<^verbatim>\<open>useMemo\<close> (lines 55 to 96) on the store.\<close>

definition computeData :: "'a World_scheme \<Rightarrow> WeekProjection list \<times> 'a World_scheme" where
  "computeData w =
     (let blobCost = BLOB_COSTS (blob (cells w));
          computeCost = COMPUTE_COSTS (provider (cells w));
          weeklyRewardRate = annualRewardRate / 52;
          monthlyToWeekly = 1 / 4.345;
          w = w\<lparr>cumulativeEarnings := 0\<rparr>;
          w = w\<lparr>cumulativeCosts := 0\<rparr>
      in array_from_st weeks
           (weekCallback_in blobCost computeCost weeklyRewardRate monthlyToWeekly) 0 w)"

text \<open>
  Two stores that agree on the five dependencies of the memo and differ in the theme and
  in what the two variables hold.
\<close>

definition world1 :: World where
  "world1 = \<lparr>cells = initialState, cumulativeEarnings = 5, cumulativeCosts = 7\<rparr>"

definition world2 :: World where
  "world2 =
     \<lparr>cells = initialState\<lparr>darkMode := False\<rparr>, cumulativeEarnings = 0, cumulativeCosts = - 3\<rparr>"

section \<open>Properties\<close>

subsection \<open>The loop, element by element\<close>

lemma length_array_from: "length (array_from n f i s) = n"
  by (induction n arbitrary: i s) (simp_all split: prod.split)

text \<open>One call of the callback: its result and the new running totals.\<close>

lemma weekCallback_eq:
  "weekCallback st bc cc r m i (ce, cs) =
     (\<lparr>week = i + 1,
       weeklyEarningsUSD = earningsAt st r i,
       weeklyInfraCostUSD = infraCostAt bc cc m i,
       netUSD = earningsAt st r i - infraCostAt bc cc m i,
       cumulativeNetUSD = (ce + earningsAt st r i) - (cs + infraCostAt bc cc m i)\<rparr>,
      (ce + earningsAt st r i, cs + infraCostAt bc cc m i))"
  by (simp add: weekCallback_def earningsAt_def infraCostAt_def Let_def)

text \<open>
  The element at position \<open>j\<close> of a run that starts at index \<open>i\<close> with running totals
  \<open>ce\<close> and \<open>cs\<close>: by induction on the number of calls, with the start index and the
  totals generalised, since every call changes them.
\<close>

lemma array_from_weekCallback_nth:
  "j < n \<Longrightarrow>
   array_from n (weekCallback st bc cc r m) i (ce, cs) ! j =
     \<lparr>week = i + j + 1,
      weeklyEarningsUSD = earningsAt st r (i + j),
      weeklyInfraCostUSD = infraCostAt bc cc m (i + j),
      netUSD = earningsAt st r (i + j) - infraCostAt bc cc m (i + j),
      cumulativeNetUSD =
        (ce + (\<Sum>k\<le>j. earningsAt st r (i + k))) - (cs + (\<Sum>k\<le>j. infraCostAt bc cc m (i + k)))\<rparr>"
proof (induction n arbitrary: i j ce cs)
  case 0
  then show ?case by simp
next
  case (Suc n)
  show ?case
  proof (cases j)
    case 0
    then show ?thesis by (simp add: weekCallback_eq)
  next
    case (Suc j')
    with Suc.prems have "j' < n" by simp
    from Suc.IH [OF this] Suc show ?thesis
      by (simp add: weekCallback_eq sum.atMost_Suc_shift add.assoc del: sum.atMost_Suc)
  qed
qed

lemma simulate_nth:
  "j < 12 \<Longrightarrow>
   simulate cc bc st ! j =
     \<lparr>week = j + 1,
      weeklyEarningsUSD = earningsAt st (annualRewardRate / 52) j,
      weeklyInfraCostUSD = infraCostAt bc cc (1 / 4.345) j,
      netUSD = earningsAt st (annualRewardRate / 52) j - infraCostAt bc cc (1 / 4.345) j,
      cumulativeNetUSD =
        (\<Sum>k\<le>j. earningsAt st (annualRewardRate / 52) k)
          - (\<Sum>k\<le>j. infraCostAt bc cc (1 / 4.345) k)\<rparr>"
  using array_from_weekCallback_nth [of j 12 st bc cc "annualRewardRate / 52" "1 / 4.345" 0 0 0]
  by (simp add: simulate_def weeks_def Let_def)

lemma length_simulate: "length (simulate cc bc st) = 12"
  by (simp add: simulate_def weeks_def Let_def length_array_from)

text \<open>The callback reads two cells of the component state and no other.\<close>

lemma weekCallback_reads:
  "audioPrice st = audioPrice st' \<Longrightarrow> userStake st = userStake st' \<Longrightarrow>
   weekCallback st bc cc r m = weekCallback st' bc cc r m"
  by (intro ext) (simp add: weekCallback_def)

lemma simulate_reads:
  "audioPrice st = audioPrice st' \<Longrightarrow> userStake st = userStake st' \<Longrightarrow>
   simulate cc bc st = simulate cc bc st'"
  by (simp add: simulate_def weekCallback_reads [of st st'])

subsection \<open>JavaScript numbers: range and special values\<close>

lemma one_le_maxDouble: "1 \<le> maxDouble"
proof -
  have "(1::real) \<le> 2 ^ 53 - 1" by simp
  moreover have "(1::real) \<le> 2 ^ 971" by (rule one_le_power) simp
  ultimately have "(1::real) * 1 \<le> (2 ^ 53 - 1) * 2 ^ 971"
    by (intro mult_mono) simp_all
  then show ?thesis by (simp add: maxDouble_def)
qed

lemma fin_in_range: "\<bar>x\<bar> \<le> maxDouble \<Longrightarrow> fin x = Fin x"
  by (auto simp: fin_def)

lemma fin_zero: "fin 0 = Fin 0"
  using one_le_maxDouble by (simp add: fin_in_range)

lemma representable_special: "representable PosInf" "representable NegInf" "representable NaN"
  by (simp_all add: representable_def)

lemma representable_fin: "representable (fin x)"
  by (auto simp: fin_def representable_def)

lemma representable_jmul: "representable (jmul a b)"
  by (cases a; cases b) (simp_all add: representable_fin representable_special inf_times_def)

lemma jsub_zero: "representable a \<Longrightarrow> jsub (Fin 0) a = jneg a"
  by (cases a) (simp_all add: jsub_def representable_def fin_in_range)

lemma jmul_zero_Fin: "jmul (Fin 0) (Fin y) = Fin 0"
  by (simp add: fin_zero)

lemma jmul_zero_PosInf: "jmul (Fin 0) PosInf = NaN"
  by (simp add: inf_times_def)

lemma jmul_NaN_right: "jmul a NaN = NaN"
  by (cases a) simp_all

lemma jsub_NaN: "jsub NaN b = NaN"
  by (simp add: jsub_def)

text \<open>
  Every element of the result of \<^verbatim>\<open>Array.from\<close> is what the callback returned at that
  index, in the state the earlier calls left.
\<close>

lemma array_from_nth_call:
  "j < n \<Longrightarrow> \<exists>s'. array_from n f i s ! j = fst (f (i + j) s')"
proof (induction n arbitrary: i j s)
  case 0
  then show ?case by simp
next
  case (Suc n)
  obtain x s1 where f: "f i s = (x, s1)"
    by (cases "f i s")
  show ?case
  proof (cases j)
    case 0
    with f have "array_from (Suc n) f i s ! j = fst (f (i + j) s)" by simp
    then show ?thesis ..
  next
    case (Suc j')
    with Suc.prems have "j' < n" by simp
    from Suc.IH [OF this, of "Suc i" s1] f Suc show ?thesis by simp
  qed
qed

lemma simulate_js_nth_call:
  assumes "j < 12"
  shows "\<exists>acc. simulate_js cc bc st ! j =
           fst (weekCallback_js st bc cc (Fin (annualRewardRate / 52)) (Fin (1 / 4.345)) j acc)"
  using array_from_nth_call [of j 12
      "weekCallback_js st bc cc (Fin (annualRewardRate / 52)) (Fin (1 / 4.345))" 0 "(Fin 0, Fin 0)"]
    assms
  by (simp add: simulate_js_def weeks_def Let_def)

text \<open>The weekly reward rate never leaves the range of the doubles.\<close>

lemma rewardVariance_finite:
  "jmul (Fin (annualRewardRate / 52)) (Fin (1 + 0.05 * cos x)) =
     Fin (annualRewardRate / 52 * (1 + 0.05 * cos x))"
proof -
  have "\<bar>1 + 0.05 * cos x\<bar> = \<bar>1 + cos x / 20\<bar>"
    by simp
  also have "\<dots> \<le> 2"
    using cos_le_one [of x] cos_ge_minus_one [of x] by linarith
  finally have v: "\<bar>1 + 0.05 * cos x\<bar> \<le> 2" .
  have r: "\<bar>annualRewardRate / 52\<bar> \<le> 1"
    by (simp add: annualRewardRate_def)
  have "\<bar>annualRewardRate / 52 * (1 + 0.05 * cos x)\<bar>
      = \<bar>annualRewardRate / 52\<bar> * \<bar>1 + 0.05 * cos x\<bar>"
    by (rule abs_mult)
  also have "\<dots> \<le> 1 * 2"
    by (intro mult_mono r v) simp_all
  also have "\<dots> \<le> maxDouble"
    by (simp add: maxDouble_def)
  finally show ?thesis
    by (simp add: fin_in_range)
qed

text \<open>The drifted price stays finite when the price leaves room for the ten percent.\<close>

lemma priceDrift_finite:
  assumes "\<bar>p\<bar> * 1.1 \<le> maxDouble"
  shows "jmul (Fin p) (Fin (1 + 0.1 * sin x)) = Fin (p * (1 + 0.1 * sin x))"
proof -
  have "\<bar>1 + 0.1 * sin x\<bar> \<le> 1.1"
    using sin_le_one [of x] sin_ge_minus_one [of x] by linarith
  then have "\<bar>p\<bar> * \<bar>1 + 0.1 * sin x\<bar> \<le> \<bar>p\<bar> * 1.1"
    by (intro mult_left_mono) simp_all
  with assms have "\<bar>p * (1 + 0.1 * sin x)\<bar> \<le> maxDouble"
    by (simp add: abs_mult)
  then show ?thesis by (simp add: fin_in_range)
qed

lemma weekCallback_js_zero_stake:
  assumes "userStake_js st = Fin 0" and "audioPrice_js st = Fin p"
    and "\<bar>p\<bar> * 1.1 \<le> maxDouble"
  shows "weeklyEarningsUSD_js
           (fst (weekCallback_js st bc cc (Fin (annualRewardRate / 52)) m i acc)) = Fin 0"
    and "netUSD_js (fst (weekCallback_js st bc cc (Fin (annualRewardRate / 52)) m i acc)) =
           jneg (weeklyInfraCostUSD_js
             (fst (weekCallback_js st bc cc (Fin (annualRewardRate / 52)) m i acc)))"
  unfolding weekCallback_js_def Let_def
  by (cases acc;
      simp only: prod.case fst_conv JsWeekProjection.select_convs assms(1,2)
        rewardVariance_finite priceDrift_finite [OF assms(3)] jmul_zero_Fin
        jsub_zero [OF representable_jmul])+

text \<open>
  A cleared price field leaves NaN in the cell, and then so are the earnings of every week,
  whatever the stake.
\<close>

lemma cleared_price_earnings_NaN:
  assumes "audioPrice_js st = NaN" and "1 \<le> w" and "w \<le> 12"
  shows "weeklyEarningsUSD_js (simulate_js cc bc st ! (w - 1)) = NaN"
proof -
  from assms(2,3) have "w - 1 < 12" by simp
  from simulate_js_nth_call [OF this] obtain acc where
    el: "simulate_js cc bc st ! (w - 1) =
      fst (weekCallback_js st bc cc (Fin (annualRewardRate / 52)) (Fin (1 / 4.345)) (w - 1) acc)"
    by blast
  show ?thesis
    unfolding el weekCallback_js_def Let_def
    by (cases acc)
      (simp only: prod.case fst_conv JsWeekProjection.select_convs assms(1) jmul.simps(1)
        jmul_NaN_right)
qed

text \<open>
  The sine of 1 from its Maclaurin polynomial of degree 2 with the remainder, and the
  overflow of the drifted price of week 3 at the price \<^verbatim>\<open>1.7e308\<close>.
\<close>

lemma sin_one_lower: "5 / 6 \<le> sin (1::real)"
proof -
  have "\<bar>sin (1::real) - (\<Sum>m<3. sin_coeff m * 1 ^ m)\<bar> \<le> inverse (fact 3) * \<bar>1\<bar> ^ 3"
    by (rule Maclaurin_sin_bound)
  moreover have "(\<Sum>m<3. sin_coeff m * (1::real) ^ m) = 1"
    by (simp add: sin_coeff_def eval_nat_numeral)
  moreover have "inverse (fact 3) = (1 / 6 :: real)"
    by (simp add: eval_nat_numeral)
  ultimately show ?thesis
    by (simp add: abs_le_iff)
qed

lemma week3_drift_overflows:
  "jmul (Fin (17 * 10 ^ 307)) (Fin (1 + 0.1 * sin 1)) = PosInf"
proof -
  have "maxDouble < 17 * 10 ^ 307 * (1 + 0.1 * (5 / 6))"
    by (simp add: maxDouble_def)
  also have "\<dots> \<le> 17 * 10 ^ 307 * (1 + 0.1 * sin 1)"
    using sin_one_lower by simp
  finally show ?thesis
    by (simp add: fin_def)
qed

subsection \<open>The invocation on the store\<close>

text \<open>
  The loop on the store returns the list of the loop on the pair of totals, and leaves a
  store that differs from the one it started in at most in the two variables.
\<close>

lemma array_from_st_weekCallback_in:
  "fst (array_from_st n (weekCallback_in bc cc r m) i w) =
     array_from n (weekCallback (cells w) bc cc r m) i (cumulativeEarnings w, cumulativeCosts w)
   \<and> (\<exists>e c. snd (array_from_st n (weekCallback_in bc cc r m) i w) =
          w\<lparr>cumulativeEarnings := e, cumulativeCosts := c\<rparr>)"
proof (induction n arbitrary: i w)
  case 0
  have "w = w\<lparr>cumulativeEarnings := cumulativeEarnings w, cumulativeCosts := cumulativeCosts w\<rparr>"
    by simp
  then have "\<exists>e c. w = w\<lparr>cumulativeEarnings := e, cumulativeCosts := c\<rparr>"
    by blast
  then show ?case by simp
next
  case (Suc n)
  obtain p e c where cb:
    "weekCallback (cells w) bc cc r m i (cumulativeEarnings w, cumulativeCosts w) = (p, (e, c))"
    by (metis prod.exhaust)
  let ?w' = "w\<lparr>cumulativeEarnings := e, cumulativeCosts := c\<rparr>"
  from Suc.IH [of "Suc i" ?w'] obtain e' c' where
    ih: "fst (array_from_st n (weekCallback_in bc cc r m) (Suc i) ?w') =
           array_from n (weekCallback (cells w) bc cc r m) (Suc i) (e, c)"
        "snd (array_from_st n (weekCallback_in bc cc r m) (Suc i) ?w') =
           w\<lparr>cumulativeEarnings := e', cumulativeCosts := c'\<rparr>"
    by auto
  have step: "weekCallback_in bc cc r m i w = (p, ?w')"
    by (simp add: weekCallback_in_def cb)
  obtain xs w'' where rest:
    "array_from_st n (weekCallback_in bc cc r m) (Suc i) ?w' = (xs, w'')"
    by (metis prod.exhaust)
  from ih rest have "xs = array_from n (weekCallback (cells w) bc cc r m) (Suc i) (e, c)"
    and "w'' = w\<lparr>cumulativeEarnings := e', cumulativeCosts := c'\<rparr>"
    by simp_all
  with cb step rest show ?case
    by auto
qed

lemma computeData_result: "fst (computeData w) = data (cells w)"
  using array_from_st_weekCallback_in
    [of weeks "BLOB_COSTS (blob (cells w))" "COMPUTE_COSTS (provider (cells w))"
        "annualRewardRate / 52" "1 / 4.345" 0 "w\<lparr>cumulativeEarnings := 0, cumulativeCosts := 0\<rparr>"]
  by (simp add: computeData_def data_def simulate_def Let_def)

lemma computeData_frame:
  "\<exists>e c. snd (computeData w) = w\<lparr>cumulativeEarnings := e, cumulativeCosts := c\<rparr>"
  using array_from_st_weekCallback_in
    [of weeks "BLOB_COSTS (blob (cells w))" "COMPUTE_COSTS (provider (cells w))"
        "annualRewardRate / 52" "1 / 4.345" 0 "w\<lparr>cumulativeEarnings := 0, cumulativeCosts := 0\<rparr>"]
  by (simp add: computeData_def Let_def)

lemma data_reads:
  "provider st = provider st' \<Longrightarrow> blob st = blob st' \<Longrightarrow> audioPrice st = audioPrice st' \<Longrightarrow>
   userStake st = userStake st' \<Longrightarrow> data st = data st'"
  by (simp add: data_def simulate_reads [of st st'])

subsection \<open>The claims\<close>

text \<open>
  The theorems about \<open>simulate\<close> hold for any cost records; \<open>data st\<close> is
  \<open>simulate (COMPUTE_COSTS (provider st)) (BLOB_COSTS (blob st)) st\<close>. The element for week
  \<open>w\<close> is at position \<open>w - 1\<close> of the sequence.
\<close>

text \<open>
  Claim C1. For every token price and stake and every week \<open>w\<close> from 1 to 12, the weekly
  earnings of the \<open>w\<close>-th element are
  \<open>userStake * ((0.07 / 52) * (1 + 0.05 * cos (w / 2))) * (audioPrice * (1 + 0.1 * sin (w / 3)))\<close>,
  with sine and cosine of radians.
\<close>

theorem weeklyEarnings_formula:
  "1 \<le> w \<Longrightarrow> w \<le> 12 \<Longrightarrow>
   weeklyEarningsUSD (simulate cc bc st ! (w - 1)) =
     userStake st * ((0.07 / 52) * (1 + 0.05 * cos (real w / 2)))
       * (audioPrice st * (1 + 0.1 * sin (real w / 3)))"
  by (simp add: simulate_nth earningsAt_def annualRewardRate_def)

text \<open>Week 3 of the default scenario.\<close>

theorem weeklyEarnings_formula_witness:
  "(1::nat) \<le> 3 \<and> (3::nat) \<le> 12 \<and>
   weeklyEarningsUSD (simulate (COMPUTE_COSTS aws_ec2) (BLOB_COSTS s3) initialState ! 2) =
     2000000 * ((0.07 / 52) * (1 + 0.05 * cos (3 / 2))) * (0.27 * (1 + 0.1 * sin 1))"
  using weeklyEarnings_formula [of 3 "COMPUTE_COSTS aws_ec2" "BLOB_COSTS s3" initialState]
  by (simp add: initialState_def)

text \<open>
  Claim C2. For every compute base cost and storage and egress prices and every week \<open>w\<close>
  from 1 to 12, the weekly infrastructure cost of the \<open>w\<close>-th element is
  \<open>(base / 4.345 + storage_per_gb * 200 + egress_per_gb * 400) * (1 + w * 0.015)\<close>.
  The code multiplies by \<open>1 / 4.345\<close>, which over the reals is the division by \<open>4.345\<close>.
\<close>

theorem weeklyInfraCost_formula:
  "1 \<le> w \<Longrightarrow> w \<le> 12 \<Longrightarrow>
   weeklyInfraCostUSD (simulate cc bc st ! (w - 1)) =
     (base cc / 4.345 + storage_per_gb bc * 200 + egress_per_gb bc * 400)
       * (1 + real w * 0.015)"
  by (simp add: simulate_nth infraCostAt_def storageGB_def egressGB_def)

text \<open>Week 12 with the GCP compute and GCS prices.\<close>

theorem weeklyInfraCost_formula_witness:
  "(1::nat) \<le> 12 \<and> (12::nat) \<le> 12 \<and>
   weeklyInfraCostUSD (simulate (COMPUTE_COSTS gcp_compute) (BLOB_COSTS gcs) initialState ! 11) =
     (70 / 4.345 + 0.020 * 200 + 0.12 * 400) * (1 + 12 * 0.015)"
  using weeklyInfraCost_formula [of 12 "COMPUTE_COSTS gcp_compute" "BLOB_COSTS gcs" initialState]
  by simp

text \<open>
  Claim C3. For every input the simulation returns exactly \<open>weeks = 12\<close> elements, and
  their \<open>week\<close> fields are 1, 2, ..., 12 in this order.
\<close>

theorem simulate_weeks_in_order:
  "weeks = 12 \<and> length (simulate cc bc st) = weeks \<and> map week (simulate cc bc st) = [1..<13]"
proof -
  have "map week (simulate cc bc st) = [1..<13]"
    by (rule nth_equalityI) (simp_all add: length_simulate simulate_nth)
  then show ?thesis
    by (simp add: length_simulate weeks_def)
qed

text \<open>
  Claim C4. For every input and every week \<open>w\<close> from 1 to 12, the cumulative net of the
  \<open>w\<close>-th element is the sum of the weekly earnings of weeks 1 to \<open>w\<close> minus the sum of
  the weekly infrastructure costs of weeks 1 to \<open>w\<close>.
\<close>

theorem cumulativeNet_is_running_difference:
  "1 \<le> w \<Longrightarrow> w \<le> 12 \<Longrightarrow>
   cumulativeNetUSD (simulate cc bc st ! (w - 1)) =
     (\<Sum>k = 1..w. weeklyEarningsUSD (simulate cc bc st ! (k - 1)))
       - (\<Sum>k = 1..w. weeklyInfraCostUSD (simulate cc bc st ! (k - 1)))"
proof -
  assume w: "1 \<le> w" "w \<le> 12"
  have shift: "(\<Sum>k = 1..w. f (k - 1)) = (\<Sum>k\<le>w - 1. f k)" for f :: "nat \<Rightarrow> real"
  proof -
    have "(\<Sum>k\<le>w - 1. f k) = (\<Sum>k = 0..w - 1. f (Suc k - 1))"
      by (simp add: atMost_atLeast0)
    also have "\<dots> = (\<Sum>k = Suc 0..Suc (w - 1). f (k - 1))"
      by (rule sum.shift_bounds_cl_Suc_ivl [symmetric])
    finally show ?thesis using w by simp
  qed
  have e: "(\<Sum>k\<le>w - 1. weeklyEarningsUSD (simulate cc bc st ! k)) =
      (\<Sum>k\<le>w - 1. earningsAt st (annualRewardRate / 52) k)"
    using w by (intro sum.cong) (simp_all add: simulate_nth)
  have c: "(\<Sum>k\<le>w - 1. weeklyInfraCostUSD (simulate cc bc st ! k)) =
      (\<Sum>k\<le>w - 1. infraCostAt bc cc (1 / 4.345) k)"
    using w by (intro sum.cong) (simp_all add: simulate_nth)
  have "cumulativeNetUSD (simulate cc bc st ! (w - 1)) =
      (\<Sum>k\<le>w - 1. weeklyEarningsUSD (simulate cc bc st ! k))
        - (\<Sum>k\<le>w - 1. weeklyInfraCostUSD (simulate cc bc st ! k))"
    using w by (simp only: e c) (simp add: simulate_nth)
  also have "\<dots> =
      (\<Sum>k = 1..w. weeklyEarningsUSD (simulate cc bc st ! (k - 1)))
        - (\<Sum>k = 1..w. weeklyInfraCostUSD (simulate cc bc st ! (k - 1)))"
    by (simp only: shift [of "\<lambda>k. weeklyEarningsUSD (simulate cc bc st ! k)"]
          shift [of "\<lambda>k. weeklyInfraCostUSD (simulate cc bc st ! k)"])
  finally show ?thesis .
qed

text \<open>Week 2 of the default scenario, with the two sums written out.\<close>

theorem cumulativeNet_is_running_difference_witness:
  "(1::nat) \<le> 2 \<and> (2::nat) \<le> 12 \<and>
   cumulativeNetUSD (simulate (COMPUTE_COSTS aws_ec2) (BLOB_COSTS s3) initialState ! 1) =
     (weeklyEarningsUSD (simulate (COMPUTE_COSTS aws_ec2) (BLOB_COSTS s3) initialState ! 0)
        + weeklyEarningsUSD (simulate (COMPUTE_COSTS aws_ec2) (BLOB_COSTS s3) initialState ! 1))
     - (weeklyInfraCostUSD (simulate (COMPUTE_COSTS aws_ec2) (BLOB_COSTS s3) initialState ! 0)
        + weeklyInfraCostUSD (simulate (COMPUTE_COSTS aws_ec2) (BLOB_COSTS s3) initialState ! 1))"
proof -
  have "{1..2::nat} = {1, 2}"
    by auto
  then show ?thesis
    using cumulativeNet_is_running_difference
      [of 2 "COMPUTE_COSTS aws_ec2" "BLOB_COSTS s3" initialState]
    by simp
qed

text \<open>
  Claim C5, as stated: for the default scenario (token price 0.27, stake 2000000, AWS EC2 with
  base 80, S3 with 0.023 and 0.09) the weekly infrastructure cost of week 1 is approximately
  60.58. It is not: the value is further than 0.5 from 60.58, a hundred times the tolerance
  of a figure given to two decimals.
\<close>

theorem week1_infraCost_not_60_58:
  "\<not> \<bar>weeklyInfraCostUSD (data initialState ! 0) - 60.58\<bar> \<le> 0.5"
  by (simp add: data_def initialState_def simulate_nth infraCostAt_def storageGB_def
        egressGB_def)

text \<open>
  Claim C5, amended: for the default scenario the weekly infrastructure cost of week 1 is
  \<open>(80 / 4.345 + 0.023 * 200 + 0.09 * 400) * 1.015\<close>, which is 59.90 to two decimals.
\<close>

theorem week1_infraCost_default:
  "weeklyInfraCostUSD (data initialState ! 0)
     = (80 / 4.345 + 0.023 * 200 + 0.09 * 400) * 1.015
   \<and> \<bar>weeklyInfraCostUSD (data initialState ! 0) - 59.90\<bar> \<le> 0.005"
  by (simp add: data_def initialState_def simulate_nth infraCostAt_def storageGB_def
        egressGB_def)

text \<open>
  Claim C6. For every input and every week \<open>w\<close> from 1 to 12, the net of the \<open>w\<close>-th
  element is its weekly earnings minus its weekly infrastructure cost.
\<close>

theorem net_is_earnings_minus_cost:
  "1 \<le> w \<Longrightarrow> w \<le> 12 \<Longrightarrow>
   netUSD (simulate cc bc st ! (w - 1)) =
     weeklyEarningsUSD (simulate cc bc st ! (w - 1))
       - weeklyInfraCostUSD (simulate cc bc st ! (w - 1))"
  by (simp add: simulate_nth)

text \<open>Week 5 with the AWS EC2 and GCS prices.\<close>

theorem net_is_earnings_minus_cost_witness:
  "(1::nat) \<le> 5 \<and> (5::nat) \<le> 12 \<and>
   netUSD (simulate (COMPUTE_COSTS aws_ec2) (BLOB_COSTS gcs) initialState ! 4) =
     weeklyEarningsUSD (simulate (COMPUTE_COSTS aws_ec2) (BLOB_COSTS gcs) initialState ! 4)
       - weeklyInfraCostUSD (simulate (COMPUTE_COSTS aws_ec2) (BLOB_COSTS gcs) initialState ! 4)"
  using net_is_earnings_minus_cost [of 5 "COMPUTE_COSTS aws_ec2" "BLOB_COSTS gcs" initialState]
  by simp

text \<open>
  Claim C7. With a positive compute base cost and non-negative storage and egress prices, the
  weekly infrastructure cost is strictly increasing in the week: for weeks \<open>v < w\<close> between
  1 and 12, the cost of week \<open>v\<close> is below the cost of week \<open>w\<close>.
\<close>

theorem infraCost_strictly_increasing:
  assumes "0 < base cc" and "0 \<le> storage_per_gb bc" and "0 \<le> egress_per_gb bc"
    and "1 \<le> v" and "v < w" and "w \<le> 12"
  shows "weeklyInfraCostUSD (simulate cc bc st ! (v - 1))
           < weeklyInfraCostUSD (simulate cc bc st ! (w - 1))"
proof -
  let ?weekly = "base cc * (1 / 4.345) + storage_per_gb bc * storageGB
                   + egress_per_gb bc * egressGB"
  have "0 < base cc * (1 / 4.345)"
    using assms(1) by simp
  moreover have "0 \<le> storage_per_gb bc * storageGB" "0 \<le> egress_per_gb bc * egressGB"
    using assms(2,3) by (simp_all add: storageGB_def egressGB_def)
  ultimately have pos: "0 < ?weekly"
    by linarith
  have "1 + real v * 0.015 < 1 + real w * 0.015"
    using assms(5) by simp
  with pos have "?weekly * (1 + real v * 0.015) < ?weekly * (1 + real w * 0.015)"
    by (rule mult_strict_left_mono [rotated])
  moreover have "v - 1 < 12" "w - 1 < 12" "real (v - 1 + 1) = real v" "real (w - 1 + 1) = real w"
    using assms(4-6) by simp_all
  ultimately show ?thesis
    by (simp only: simulate_nth infraCostAt_def WeekProjection.simps)
qed

text \<open>Weeks 1 and 12 with the AWS EC2 and S3 prices.\<close>

theorem infraCost_strictly_increasing_witness:
  "0 < base (COMPUTE_COSTS aws_ec2) \<and> 0 \<le> storage_per_gb (BLOB_COSTS s3)
   \<and> 0 \<le> egress_per_gb (BLOB_COSTS s3) \<and> (1::nat) \<le> 1 \<and> (1::nat) < 12 \<and> (12::nat) \<le> 12
   \<and> weeklyInfraCostUSD (simulate (COMPUTE_COSTS aws_ec2) (BLOB_COSTS s3) initialState ! 0)
       < weeklyInfraCostUSD (simulate (COMPUTE_COSTS aws_ec2) (BLOB_COSTS s3) initialState ! 11)"
  using infraCost_strictly_increasing
    [of "COMPUTE_COSTS aws_ec2" "BLOB_COSTS s3" 1 12 initialState]
  by simp

text \<open>
  Claim C8, as stated: for every input with stake 0, every element has weekly earnings 0
  and a net equal to the negation of its weekly infrastructure cost. It fails for a price
  that is a positive finite double: with stake 0 and price \<^verbatim>\<open>1.7e308\<close>, in week 3 the
  drifted price \<^verbatim>\<open>1.7e308 * (1 + 0.1 * Math.sin(1))\<close> overflows to \<^verbatim>\<open>Infinity\<close>, and
  \<^verbatim>\<open>0 * rewardVariance * Infinity\<close> is NaN; so are the earnings and the net of that week.
\<close>

theorem zero_stake_earnings_NaN:
  "userStake_js overflowState = Fin 0
   \<and> audioPrice_js overflowState = Fin (17 * 10 ^ 307)
   \<and> 0 < (17 * 10 ^ 307 :: real) \<and> 17 * 10 ^ 307 \<le> maxDouble
   \<and> weeklyEarningsUSD_js (data_js overflowState ! 2) = NaN
   \<and> weeklyEarningsUSD_js (data_js overflowState ! 2) \<noteq> Fin 0
   \<and> netUSD_js (data_js overflowState ! 2) = NaN
   \<and> netUSD_js (data_js overflowState ! 2)
       \<noteq> jneg (weeklyInfraCostUSD_js (data_js overflowState ! 2))"
proof -
  have stake: "userStake_js overflowState = Fin 0"
    and price: "audioPrice_js overflowState = Fin (17 * 10 ^ 307)"
    and prov: "provider_js overflowState = aws_ec2" "blob_js overflowState = s3"
    by (simp_all add: overflowState_def initialState_js_def)
  have range: "0 < (17 * 10 ^ 307 :: real)" "17 * 10 ^ 307 \<le> maxDouble"
    by (simp_all add: maxDouble_def)
  have "(2::nat) < 12" by simp
  from simulate_js_nth_call [OF this] obtain acc where
    el: "simulate_js (COMPUTE_COSTS aws_ec2) (BLOB_COSTS s3) overflowState ! 2 =
      fst (weekCallback_js overflowState (BLOB_COSTS s3) (COMPUTE_COSTS aws_ec2)
             (Fin (annualRewardRate / 52)) (Fin (1 / 4.345)) 2 acc)"
    by blast
  obtain ce cs where acc: "acc = (ce, cs)"
    by (cases acc)
  have wk: "real (2 + 1) / 3 = 1"
    by simp
  have d: "data_js overflowState ! 2
      = simulate_js (COMPUTE_COSTS aws_ec2) (BLOB_COSTS s3) overflowState ! 2"
    by (simp only: data_js_def Let_def prov)
  have e: "weeklyEarningsUSD_js (data_js overflowState ! 2) = NaN"
    unfolding d el acc weekCallback_js_def Let_def
    by (simp only: prod.case fst_conv JsWeekProjection.select_convs stake price wk
          rewardVariance_finite week3_drift_overflows jmul_zero_Fin jmul_zero_PosInf)
  have n: "netUSD_js (data_js overflowState ! 2) = NaN"
    unfolding d el acc weekCallback_js_def Let_def
    by (simp only: prod.case fst_conv JsWeekProjection.select_convs stake price wk
          rewardVariance_finite week3_drift_overflows jmul_zero_Fin jmul_zero_PosInf jsub_NaN)
  have c: "weeklyInfraCostUSD_js (data_js overflowState ! 2) \<noteq> NaN"
    unfolding d el acc weekCallback_js_def Let_def
    by (simp add: storageGB_def egressGB_def fin_def maxDouble_def)
  then have "jneg (weeklyInfraCostUSD_js (data_js overflowState ! 2)) \<noteq> NaN"
    by (cases "weeklyInfraCostUSD_js (data_js overflowState ! 2)") simp_all
  with stake price range e n show ?thesis
    by simp
qed

text \<open>
  Claim C8, amended: for every input with stake 0 and a finite price \<open>p\<close> with
  \<open>\<bar>p\<bar> * 1.1\<close> at most the largest double, so that the drifted price cannot overflow, the
  element of every week from 1 to 12 has weekly earnings 0 and a net equal to the negation
  of its weekly infrastructure cost.
\<close>

theorem zero_stake_no_earnings:
  assumes "userStake_js st = Fin 0" and "audioPrice_js st = Fin p"
    and "\<bar>p\<bar> * 1.1 \<le> maxDouble" and "1 \<le> w" and "w \<le> 12"
  shows "weeklyEarningsUSD_js (simulate_js cc bc st ! (w - 1)) = Fin 0
    \<and> netUSD_js (simulate_js cc bc st ! (w - 1)) =
        jneg (weeklyInfraCostUSD_js (simulate_js cc bc st ! (w - 1)))"
proof -
  from assms(4,5) have "w - 1 < 12" by simp
  from simulate_js_nth_call [OF this] obtain acc where
    "simulate_js cc bc st ! (w - 1) =
      fst (weekCallback_js st bc cc (Fin (annualRewardRate / 52)) (Fin (1 / 4.345)) (w - 1) acc)"
    by blast
  then show ?thesis
    by (simp only: weekCallback_js_zero_stake [OF assms(1-3)])
qed

text \<open>Week 4 of the default scenario with the stake set to 0.\<close>

theorem zero_stake_no_earnings_witness:
  "userStake_js zeroStakeState = Fin 0 \<and> audioPrice_js zeroStakeState = Fin 0.27
   \<and> \<bar>0.27\<bar> * 1.1 \<le> maxDouble \<and> (1::nat) \<le> 4 \<and> (4::nat) \<le> 12
   \<and> weeklyEarningsUSD_js
        (simulate_js (COMPUTE_COSTS aws_ec2) (BLOB_COSTS s3) zeroStakeState ! 3) = Fin 0
   \<and> netUSD_js (simulate_js (COMPUTE_COSTS aws_ec2) (BLOB_COSTS s3) zeroStakeState ! 3) =
      jneg (weeklyInfraCostUSD_js
        (simulate_js (COMPUTE_COSTS aws_ec2) (BLOB_COSTS s3) zeroStakeState ! 3))"
proof -
  have s: "userStake_js zeroStakeState = Fin 0"
    and p: "audioPrice_js zeroStakeState = Fin 0.27"
    by (simp_all add: zeroStakeState_def initialState_js_def)
  have b: "\<bar>0.27\<bar> * 1.1 \<le> maxDouble"
    using one_le_maxDouble by simp
  have w: "(1::nat) \<le> 4" "(4::nat) \<le> 12"
    by simp_all
  from zero_stake_no_earnings [OF s p b w, of "COMPUTE_COSTS aws_ec2" "BLOB_COSTS s3"] s p b
  show ?thesis
    by simp
qed

text \<open>
  Claim C9. The simulation is deterministic and has no side effect on other state. On the
  store: two invocations in stores that agree on the five inputs (provider, blob provider,
  token price, total stake, stake) return the same sequence, whatever else the two stores
  hold, the theme and the contents of the two variables included; an invocation in the
  store that an earlier invocation left returns the same sequence again; an invocation
  leaves a store that differs from the one it started in at most in its own two variables;
  and the sequence is the \<open>data\<close> of the cells.
\<close>

theorem computeData_deterministic:
  fixes w w' :: "'a World_scheme"
  assumes "provider (cells w) = provider (cells w')" and "blob (cells w) = blob (cells w')"
    and "audioPrice (cells w) = audioPrice (cells w')"
    and "totalStake (cells w) = totalStake (cells w')"
    and "userStake (cells w) = userStake (cells w')"
  shows "fst (computeData w) = fst (computeData w')
    \<and> fst (computeData (snd (computeData w))) = fst (computeData w)
    \<and> (\<exists>e c. snd (computeData w) = w\<lparr>cumulativeEarnings := e, cumulativeCosts := c\<rparr>)
    \<and> fst (computeData w) = data (cells w)"
proof -
  have "fst (computeData w) = fst (computeData w')"
    using assms by (simp only: computeData_result data_reads [of "cells w" "cells w'"])
  moreover have "fst (computeData (snd (computeData w))) = fst (computeData w)"
  proof -
    from computeData_frame [of w] obtain e c where
      "snd (computeData w) = w\<lparr>cumulativeEarnings := e, cumulativeCosts := c\<rparr>"
      by blast
    then show ?thesis
      by (simp add: computeData_result)
  qed
  ultimately show ?thesis
    using computeData_frame [of w] computeData_result [of w] by blast
qed

text \<open>
  Two different stores with the default inputs: dark and light theme, and different
  leftovers in the two variables.
\<close>

theorem computeData_deterministic_witness:
  "provider (cells world1) = provider (cells world2)
   \<and> blob (cells world1) = blob (cells world2)
   \<and> audioPrice (cells world1) = audioPrice (cells world2)
   \<and> totalStake (cells world1) = totalStake (cells world2)
   \<and> userStake (cells world1) = userStake (cells world2)
   \<and> world1 \<noteq> world2
   \<and> fst (computeData world1) = fst (computeData world2)
   \<and> fst (computeData (snd (computeData world1))) = fst (computeData world1)
   \<and> (\<exists>e c. snd (computeData world1) = world1\<lparr>cumulativeEarnings := e, cumulativeCosts := c\<rparr>)
   \<and> fst (computeData world1) = data (cells world1)"
proof -
  have deps: "provider (cells world1) = provider (cells world2)"
    "blob (cells world1) = blob (cells world2)"
    "audioPrice (cells world1) = audioPrice (cells world2)"
    "totalStake (cells world1) = totalStake (cells world2)"
    "userStake (cells world1) = userStake (cells world2)"
    by (simp_all add: world1_def world2_def)
  have ne: "world1 \<noteq> world2"
    by (simp add: world1_def world2_def)
  from computeData_deterministic [OF deps] deps ne show ?thesis
    by blast
qed

text \<open>
  Claim C10. The sequence does not depend on the total stake: for any two values of
  \<open>totalStake\<close>, all other inputs equal, the computed sequences are identical, although
  \<open>totalStake\<close> is in the dependency list of the memo.
\<close>

theorem data_ignores_totalStake:
  "data (st\<lparr>totalStake := t1\<rparr>) = data (st\<lparr>totalStake := t2\<rparr>)"
  by (simp add: data_def simulate_reads [of "st\<lparr>totalStake := t1\<rparr>" "st\<lparr>totalStake := t2\<rparr>"])

end
